theory Spec2Isabelle
  imports
    Main
    "HOL-Library.List_Lexorder"
    "HOL-Library.Option_ord"
    "HOL-Library.Multiset"
begin

section \<open>The sneaker resource of \<open>src/app.py\<close>\<close>

text \<open>
  The repository holds three structurally identical resources (\<open>app.py\<close>, \<open>energy.py\<close>,
  \<open>vape.py\<close>); the repository class of \<open>app.py\<close> is embedded here. The SQLite table behind
  the SQLAlchemy session is the explicit state: the list of its rows in storage order,
  which is the order of their keys. Every repository method takes the table and returns
  its result together with the table it leaves.

  A Python \<open>str\<close> is the list of its code points, a Python \<open>int\<close> is an \<open>int\<close>. What the
  driver and the engine do with values they cannot hold is part of the model: a statement
  they refuse ends the method with an error and leaves the table as it was.
\<close>

subsection \<open>Data model\<close>

type_synonym str = "nat list"

text \<open>The code points of a literal.\<close>

definition str_of :: "string \<Rightarrow> str" where
  "str_of s = map of_char s"

text \<open>
  \<open>class Sneaker(Base)\<close>: \<open>id\<close> is the integer primary key, and the other three columns
  are declared without \<open>nullable=False\<close>, so each of them may hold \<open>NULL\<close> (\<open>None\<close>).
\<close>

record Sneaker =
  id' :: int
  brand :: "str option"
  model :: "str option"
  price :: "int option"

text \<open>\<open>class SneakerCreate(BaseModel)\<close>: all three fields are required.\<close>

record SneakerCreate =
  brand :: str
  model :: str
  price :: int

text \<open>
  \<open>class SneakerUpdate(BaseModel)\<close>: every field is optional. The outer \<open>option\<close> says
  whether the field was supplied (what \<open>dict(exclude_unset=True)\<close> keeps), the inner one
  is the supplied value, which may be an explicit \<open>None\<close>. The schema has no \<open>id\<close> field.
\<close>

record SneakerUpdate =
  brand :: "str option option"
  model :: "str option option"
  price :: "int option option"

type_synonym db = "Sneaker list"

text \<open>
  The errors a repository method can end in. \<open>AttributeError\<close> is raised by the sorting
  block of \<open>get_all\<close>. \<open>Refused\<close> stands for the exception with which the driver or the
  engine refuses a statement: \<open>OverflowError\<close> for an integer outside the signed 64-bit
  range, \<open>UnicodeEncodeError\<close> for a string with a surrogate code point, and the engine's
  errors for a value over its size limits, for a \<open>LIKE\<close> pattern over its length limit
  and for a table without a free key. \<open>InvalidRequestError\<close> is what \<open>refresh\<close> raises
  when the row it reads back is not there.
\<close>

datatype error = AttributeError | Refused | InvalidRequestError

subsection \<open>What the source leaves to its runtime\<close>

text \<open>
  The behaviour that the Python runtime, the mapper and the SQLite build decide, and the
  source does not:
  \<^item> \<open>inherited\<close>: the names, other than the five attributes the class body defines, under
    which \<open>getattr(Sneaker, name, None)\<close> finds an object that is not \<open>None\<close> (what the
    declarative base, \<open>object\<close> and the metaclass provide); none of these objects is a
    column;
  \<^item> \<open>tie_rank\<close>: the order in which an \<open>ORDER BY\<close> yields rows that are equal on the
    sorting column (SQL leaves it to the query plan): by ascending rank, and in storage
    order for equal ranks;
  \<^item> \<open>random_rowid\<close>: the key the engine's random draws end on for a new row once the
    largest key of the table is the largest 64-bit integer (a key in use when every
    draw met a key in use, and the engine gives up);
  \<^item> \<open>limit_length\<close>: the engine's limit on the byte length of a string
    (1,000,000,000 in a stock build);
  \<^item> \<open>limit_like\<close>: its limit on the byte length of a \<open>LIKE\<close> pattern (50,000 in a stock
    build);
  \<^item> \<open>row_fits\<close>: whether a row, as the engine encodes it with its index entries, is
    within the engine's size limit.
\<close>

record runtime =
  inherited :: "str \<Rightarrow> bool"
  tie_rank :: "Sneaker \<Rightarrow> int"
  random_rowid :: "db \<Rightarrow> int"
  limit_length :: nat
  limit_like :: nat
  row_fits :: "Sneaker \<Rightarrow> bool"

subsection \<open>Python and SQL primitives used by the repository\<close>

text \<open>Truthiness of an \<open>Optional[str]\<close> and of an \<open>Optional[int]\<close> in an \<open>if\<close>.\<close>

definition truthy_str :: "str option \<Rightarrow> bool" where
  "truthy_str s = (case s of None \<Rightarrow> False | Some t \<Rightarrow> t \<noteq> [])"

definition truthy_int :: "int option \<Rightarrow> bool" where
  "truthy_int n = (case n of None \<Rightarrow> False | Some k \<Rightarrow> k \<noteq> 0)"

text \<open>
  The integers the driver binds: the signed 64-bit range. Binding any other raises
  \<open>OverflowError\<close>.
\<close>

definition storable_int :: "int \<Rightarrow> bool" where
  "storable_int n = (- 9223372036854775808 \<le> n \<and> n \<le> 9223372036854775807)"

text \<open>
  The strings the driver binds: those it can encode in UTF-8 (no surrogate code point)
  into no more bytes than the engine's length limit.
\<close>

definition encodable :: "str \<Rightarrow> bool" where
  "encodable s = list_all (\<lambda>c. c < 55296 \<or> (57344 \<le> c \<and> c \<le> 1114111)) s"

definition utf8_len :: "str \<Rightarrow> nat" where
  "utf8_len s =
     sum_list (map (\<lambda>c. if c < 128 then 1 else if c < 2048 then 2
                         else if c < 65536 then 3 else 4) s)"

definition storable_str :: "runtime \<Rightarrow> str \<Rightarrow> bool" where
  "storable_str rt s = (encodable s \<and> utf8_len s \<le> limit_length rt)"

text \<open>
  ASCII case folding. It is the folding SQLite's \<open>LIKE\<close> applies, and it agrees with
  \<open>str.lower()\<close> on whether the result is \<open>desc\<close>.
\<close>

definition lower_cp :: "nat \<Rightarrow> nat" where
  "lower_cp c = (if 65 \<le> c \<and> c \<le> 90 then c + 32 else c)"

definition lower :: "str \<Rightarrow> str" where
  "lower s = map lower_cp s"

text \<open>
  SQLite's \<open>LIKE\<close> (no \<open>ESCAPE\<close>, \<open>case_sensitive_like\<close> off, as the engine is created)
  on a pattern and a text that it has read: \<open>%\<close> (code point 37) matches any run of
  characters, \<open>_\<close> (95) exactly one, and any other character matches itself up to ASCII
  case. The first argument is the pattern.
\<close>

fun like :: "str \<Rightarrow> str \<Rightarrow> bool" where
  "like [] t = (t = [])"
| "like (p # ps) [] = (p = 37 \<and> like ps [])"
| "like (p # ps) (c # cs) =
     (if p = 37 then like ps (c # cs) \<or> like (p # ps) cs
      else (p = 95 \<or> lower_cp p = lower_cp c) \<and> like ps cs)"

text \<open>
  \<open>LIKE\<close> reads its pattern and its text as C strings: each up to its first NUL
  (code point 0).
\<close>

definition cstr :: "str \<Rightarrow> str" where
  "cstr s = takeWhile (\<lambda>c. c \<noteq> 0) s"

text \<open>
  \<open>column.contains(search)\<close> renders as \<open>column LIKE '%' || search || '%'\<close>; on a \<open>NULL\<close>
  column the comparison is \<open>NULL\<close>, which a \<open>WHERE\<close> clause treats as not true.
\<close>

definition contains :: "str option \<Rightarrow> str \<Rightarrow> bool" where
  "contains column search =
     (case column of None \<Rightarrow> False
      | Some v \<Rightarrow> like (cstr (37 # search @ [37])) (cstr v))"

subsection \<open>Attribute lookup on the mapped class\<close>

datatype column = Col_id | Col_brand | Col_model | Col_price

datatype attr = Column column | NonColumn | Absent

text \<open>
  \<open>getattr(Sneaker, sort_by, None)\<close>: the four columns and \<open>__tablename__\<close> (a \<open>str\<close>) from
  the class body, then what the class inherits, and \<open>None\<close> for any other name.
\<close>

definition getattr_Sneaker :: "runtime \<Rightarrow> str \<Rightarrow> attr" where
  "getattr_Sneaker rt name =
     (if name = str_of ''id'' then Column Col_id
      else if name = str_of ''brand'' then Column Col_brand
      else if name = str_of ''model'' then Column Col_model
      else if name = str_of ''price'' then Column Col_price
      else if name = str_of ''__tablename__'' then NonColumn
      else if inherited rt name then NonColumn
      else Absent)"

subsection \<open>\<open>SneakerRepository.get_all\<close>\<close>

text \<open>
  The first three \<open>query.filter\<close> calls: brand equality and the two price bounds. A row
  is kept when every applied condition is true; a comparison with \<open>NULL\<close> is not. This
  is the \<open>WHERE\<close> clause as the engine evaluates it; whether the driver binds the values
  at all is \<open>query_accepted\<close> below.
\<close>

definition apply_value_filters ::
  "db \<Rightarrow> str option \<Rightarrow> int option \<Rightarrow> int option \<Rightarrow> Sneaker list" where
  "apply_value_filters rows filter_brand filter_price_min filter_price_max =
     (let q1 = (if truthy_str filter_brand
                then filter (\<lambda>r. Sneaker.brand r = filter_brand) rows else rows);
          q2 = (if truthy_int filter_price_min
                then filter (\<lambda>r. case Sneaker.price r of None \<Rightarrow> False
                                  | Some p \<Rightarrow> p \<ge> the filter_price_min) q1 else q1);
          q3 = (if truthy_int filter_price_max
                then filter (\<lambda>r. case Sneaker.price r of None \<Rightarrow> False
                                  | Some p \<Rightarrow> p \<le> the filter_price_max) q2 else q2)
      in q3)"

text \<open>The fourth: the search, on the rows the first three keep.\<close>

definition apply_filters ::
  "db \<Rightarrow> str option \<Rightarrow> int option \<Rightarrow> int option \<Rightarrow> str option \<Rightarrow> Sneaker list" where
  "apply_filters rows filter_brand filter_price_min filter_price_max search =
     (let q3 = apply_value_filters rows filter_brand filter_price_min filter_price_max;
          q4 = (if truthy_str search
                then filter (\<lambda>r. contains (Sneaker.brand r) (the search)
                                  \<or> contains (Sneaker.model r) (the search)) q3 else q3)
      in q4)"

text \<open>
  The sorting block builds the \<open>ORDER BY\<close> clause. \<open>sort_order.lower()\<close> raises when
  \<open>sort_order\<close> is \<open>None\<close>, and \<open>column.desc()\<close> or \<open>column.asc()\<close> raises when the attribute
  found is not a column.
\<close>

datatype ordering = Asc column | Desc column

definition sort_clause ::
  "runtime \<Rightarrow> str option \<Rightarrow> str option \<Rightarrow> error + ordering option" where
  "sort_clause rt sort_by sort_order =
     (if truthy_str sort_by then
        (case getattr_Sneaker rt (the sort_by) of
           Absent \<Rightarrow> Inr None
         | a \<Rightarrow>
            (case sort_order of
               None \<Rightarrow> Inl AttributeError
             | Some so \<Rightarrow>
                (if lower so = str_of ''desc''
                 then (case a of Column c \<Rightarrow> Inr (Some (Desc c)) | _ \<Rightarrow> Inl AttributeError)
                 else (case a of Column c \<Rightarrow> Inr (Some (Asc c)) | _ \<Rightarrow> Inl AttributeError))))
      else Inr None)"

text \<open>
  Whether the driver and the engine run the query. The driver binds the brand, the two
  price bounds and the search string where the filter is applied, then \<open>limit\<close> and
  \<open>skip\<close>. The engine builds the pattern \<open>'%' || search || '%'\<close> before it reads a row,
  and checks the pattern against its \<open>LIKE\<close> limit when a row reaches the search
  condition: a row that the first three conditions keep, in a query whose \<open>LIMIT\<close> is
  not 0.
\<close>

definition query_accepted ::
  "runtime \<Rightarrow> db \<Rightarrow> int \<Rightarrow> int \<Rightarrow> str option \<Rightarrow> int option \<Rightarrow> int option \<Rightarrow> str option
     \<Rightarrow> bool" where
  "query_accepted rt rows skip limit filter_brand filter_price_min filter_price_max search =
     ((if truthy_str filter_brand then storable_str rt (the filter_brand) else True)
      \<and> (if truthy_int filter_price_min then storable_int (the filter_price_min) else True)
      \<and> (if truthy_int filter_price_max then storable_int (the filter_price_max) else True)
      \<and> (if truthy_str search
          then storable_str rt (the search)
               \<and> utf8_len (the search) + 2 \<le> limit_length rt
               \<and> (limit = 0
                   \<or> apply_value_filters rows filter_brand filter_price_min
                        filter_price_max = []
                   \<or> utf8_len (the search) + 2 \<le> limit_like rt)
          else True)
      \<and> storable_int limit \<and> storable_int skip)"

text \<open>
  \<open>ORDER BY column ASC\<close>: by the column's value (\<open>NULL\<close> first, text by code points),
  rows equal on it in the order the runtime's \<open>tie_rank\<close> gives.
\<close>

definition sort_asc :: "column \<Rightarrow> Sneaker list \<Rightarrow> Sneaker list" where
  "sort_asc c rows =
     (case c of
        Col_id \<Rightarrow> sort_key id' rows
      | Col_brand \<Rightarrow> sort_key Sneaker.brand rows
      | Col_model \<Rightarrow> sort_key Sneaker.model rows
      | Col_price \<Rightarrow> sort_key Sneaker.price rows)"

definition order_by :: "runtime \<Rightarrow> ordering option \<Rightarrow> Sneaker list \<Rightarrow> Sneaker list" where
  "order_by rt ob rows =
     (case ob of
        None \<Rightarrow> rows
      | Some (Asc c) \<Rightarrow> sort_asc c (sort_key (tie_rank rt) rows)
      | Some (Desc c) \<Rightarrow> rev (sort_asc c (rev (sort_key (tie_rank rt) rows))))"

text \<open>
  \<open>query.offset(skip).limit(limit)\<close>, as the engine evaluates it on the two integers
  the driver has bound (\<open>get_all\<close> below refuses any other): SQLite reads a negative
  \<open>OFFSET\<close> as zero and a negative \<open>LIMIT\<close> as no limit.
\<close>

definition paginate :: "int \<Rightarrow> int \<Rightarrow> Sneaker list \<Rightarrow> Sneaker list" where
  "paginate skip limit rows =
     (let after = (if skip \<le> 0 then rows else drop (nat skip) rows)
      in if limit < 0 then after else take (nat limit) after)"

text \<open>
  \<open>get_all\<close>: the sorting block runs while the query is built, so its error comes first;
  \<open>.all()\<close> then runs the query.
\<close>

definition get_all ::
  "runtime \<Rightarrow> db \<Rightarrow> int \<Rightarrow> int \<Rightarrow> str option \<Rightarrow> str option \<Rightarrow> str option
     \<Rightarrow> int option \<Rightarrow> int option \<Rightarrow> str option \<Rightarrow> error + Sneaker list" where
  "get_all rt rows skip limit sort_by sort_order filter_brand filter_price_min
       filter_price_max search =
     (let query = apply_filters rows filter_brand filter_price_min filter_price_max search
      in case sort_clause rt sort_by sort_order of
           Inl e \<Rightarrow> Inl e
         | Inr ob \<Rightarrow>
             if query_accepted rt rows skip limit filter_brand filter_price_min
                  filter_price_max search
             then Inr (paginate skip limit (order_by rt ob query))
             else Inl Refused)"

subsection \<open>\<open>get_by_id\<close>, \<open>create\<close>, \<open>update\<close>, \<open>delete\<close>\<close>

text \<open>\<open>query.filter(Sneaker.id == sneaker_id).first()\<close>; the driver binds the id.\<close>

definition get_by_id :: "db \<Rightarrow> int \<Rightarrow> error + Sneaker option" where
  "get_by_id rows sneaker_id =
     (if storable_int sneaker_id then Inr (find (\<lambda>r. id' r = sneaker_id) rows)
      else Inl Refused)"

text \<open>
  The key SQLite gives a row inserted without one into an \<open>INTEGER PRIMARY KEY\<close> table:
  1 for an empty table, one more than the largest key while that is below the largest
  64-bit integer, and a key drawn at random after that.
\<close>

definition new_rowid :: "runtime \<Rightarrow> db \<Rightarrow> int" where
  "new_rowid rt rows =
     (if rows = [] then 1
      else if Max (set (map id' rows)) < 9223372036854775807
      then Max (set (map id' rows)) + 1
      else random_rowid rt rows)"

text \<open>
  Whether the commit of a create goes through: the driver binds brand, model and price,
  the engine finds a key that it can hold and that no row has, and it encodes the row.
\<close>

definition create_accepted :: "runtime \<Rightarrow> db \<Rightarrow> SneakerCreate \<Rightarrow> bool" where
  "create_accepted rt rows sneaker_data =
     (storable_str rt (SneakerCreate.brand sneaker_data)
      \<and> storable_str rt (SneakerCreate.model sneaker_data)
      \<and> storable_int (SneakerCreate.price sneaker_data)
      \<and> storable_int (new_rowid rt rows)
      \<and> new_rowid rt rows \<notin> set (map id' rows)
      \<and> row_fits rt \<lparr>Sneaker.id' = new_rowid rt rows,
                       Sneaker.brand = Some (SneakerCreate.brand sneaker_data),
                       Sneaker.model = Some (SneakerCreate.model sneaker_data),
                       Sneaker.price = Some (SneakerCreate.price sneaker_data)\<rparr>)"

text \<open>
  \<open>create\<close>: build the row from the input; the commit stores it under its new key, at
  the place of that key; \<open>refresh\<close> then reads the row back by its key.
\<close>

definition create :: "runtime \<Rightarrow> db \<Rightarrow> SneakerCreate \<Rightarrow> (error + Sneaker) \<times> db" where
  "create rt rows sneaker_data =
     (let new_id = new_rowid rt rows;
          db_sneaker = \<lparr>Sneaker.id' = new_id,
                        Sneaker.brand = Some (SneakerCreate.brand sneaker_data),
                        Sneaker.model = Some (SneakerCreate.model sneaker_data),
                        Sneaker.price = Some (SneakerCreate.price sneaker_data)\<rparr>
      in if create_accepted rt rows sneaker_data
         then (let rows' = insort_key id' db_sneaker rows
               in case get_by_id rows' new_id of
                    Inl e \<Rightarrow> (Inl e, rows')
                  | Inr None \<Rightarrow> (Inl InvalidRequestError, rows')
                  | Inr (Some refreshed) \<Rightarrow> (Inr refreshed, rows'))
         else (Inl Refused, rows))"

text \<open>The \<open>setattr\<close> loop over the supplied fields.\<close>

definition setattrs :: "Sneaker \<Rightarrow> SneakerUpdate \<Rightarrow> Sneaker" where
  "setattrs r sneaker_data =
     r\<lparr>Sneaker.brand := (case SneakerUpdate.brand sneaker_data of None \<Rightarrow> Sneaker.brand r | Some v \<Rightarrow> v),
       Sneaker.model := (case SneakerUpdate.model sneaker_data of None \<Rightarrow> Sneaker.model r | Some v \<Rightarrow> v),
       Sneaker.price := (case SneakerUpdate.price sneaker_data of None \<Rightarrow> Sneaker.price r | Some v \<Rightarrow> v)\<rparr>"

text \<open>
  Whether the commit of an update goes through. The mapper writes only the columns whose
  value changed, and nothing when none did; the driver binds the new values (\<open>None\<close> as
  \<open>NULL\<close>), and the engine encodes the new row.
\<close>

definition update_accepted :: "runtime \<Rightarrow> Sneaker \<Rightarrow> Sneaker \<Rightarrow> bool" where
  "update_accepted rt old new =
     (new = old
      \<or> ((Sneaker.brand new = Sneaker.brand old
           \<or> (case Sneaker.brand new of None \<Rightarrow> True | Some b \<Rightarrow> storable_str rt b))
          \<and> (Sneaker.model new = Sneaker.model old
              \<or> (case Sneaker.model new of None \<Rightarrow> True | Some m \<Rightarrow> storable_str rt m))
          \<and> (Sneaker.price new = Sneaker.price old
              \<or> (case Sneaker.price new of None \<Rightarrow> True | Some p \<Rightarrow> storable_int p))
          \<and> row_fits rt new))"

text \<open>
  \<open>update\<close>: look the row up, assign the supplied fields, commit (\<open>UPDATE ... WHERE id =
  sneaker_id\<close>), and \<open>refresh\<close> reads the row back.
\<close>

definition update ::
  "runtime \<Rightarrow> db \<Rightarrow> int \<Rightarrow> SneakerUpdate \<Rightarrow> (error + Sneaker option) \<times> db" where
  "update rt rows sneaker_id sneaker_data =
     (case get_by_id rows sneaker_id of
        Inl e \<Rightarrow> (Inl e, rows)
      | Inr None \<Rightarrow> (Inr None, rows)
      | Inr (Some db_sneaker) \<Rightarrow>
          if update_accepted rt db_sneaker (setattrs db_sneaker sneaker_data)
          then (let rows' = map (\<lambda>r. if id' r = sneaker_id then setattrs r sneaker_data
                                      else r) rows
                in case get_by_id rows' sneaker_id of
                     Inl e \<Rightarrow> (Inl e, rows')
                   | Inr None \<Rightarrow> (Inl InvalidRequestError, rows')
                   | Inr (Some refreshed) \<Rightarrow> (Inr (Some refreshed), rows'))
          else (Inl Refused, rows))"

definition delete :: "db \<Rightarrow> int \<Rightarrow> (error + bool) \<times> db" where
  "delete rows sneaker_id =
     (case get_by_id rows sneaker_id of
        Inl e \<Rightarrow> (Inl e, rows)
      | Inr None \<Rightarrow> (Inr False, rows)
      | Inr (Some db_sneaker) \<Rightarrow> (Inr True, filter (\<lambda>r. id' r \<noteq> sneaker_id) rows))"

subsection \<open>Tables the repository can produce\<close>

text \<open>
  The table is created empty (\<open>Base.metadata.create_all\<close>) and changes only through the
  three committing methods.
\<close>

inductive reachable :: "runtime \<Rightarrow> db \<Rightarrow> bool" for rt :: runtime where
  initial: "reachable rt []"
| after_create: "reachable rt rows \<Longrightarrow> reachable rt (snd (create rt rows sneaker_data))"
| after_update:
    "reachable rt rows \<Longrightarrow> reachable rt (snd (update rt rows sneaker_id sneaker_data))"
| after_delete: "reachable rt rows \<Longrightarrow> reachable rt (snd (delete rows sneaker_id))"

subsection \<open>Notions the properties are stated with\<close>

text \<open>The order of two rows on a column (\<open>NULL\<close> below every value).\<close>

definition col_le :: "column \<Rightarrow> Sneaker \<Rightarrow> Sneaker \<Rightarrow> bool" where
  "col_le c a b =
     (case c of
        Col_id \<Rightarrow> id' a \<le> id' b
      | Col_brand \<Rightarrow> Sneaker.brand a \<le> Sneaker.brand b
      | Col_model \<Rightarrow> Sneaker.model a \<le> Sneaker.model b
      | Col_price \<Rightarrow> Sneaker.price a \<le> Sneaker.price b)"

text \<open>Case-sensitive substring containment, Python's \<open>s in t\<close>.\<close>

fun is_prefix :: "str \<Rightarrow> str \<Rightarrow> bool" where
  "is_prefix [] t = True"
| "is_prefix (a # s) [] = False"
| "is_prefix (a # s) (c # t) = (a = c \<and> is_prefix s t)"

fun substring :: "str \<Rightarrow> str \<Rightarrow> bool" where
  "substring s [] = is_prefix s []"
| "substring s (c # t) = (is_prefix s (c # t) \<or> substring s t)"


text \<open>
  The sorting block does not raise: \<open>sort_by\<close> is absent or empty, or names no attribute
  of the class, or names a column while \<open>sort_order\<close> is a string.
\<close>

definition sort_by_usable :: "runtime \<Rightarrow> str option \<Rightarrow> str option \<Rightarrow> bool" where
  "sort_by_usable rt sort_by sort_order =
     (if truthy_str sort_by
      then (case getattr_Sneaker rt (the sort_by) of
              Absent \<Rightarrow> True
            | Column c \<Rightarrow> sort_order \<noteq> None
            | NonColumn \<Rightarrow> False)
      else True)"

subsection \<open>A runtime and rows for concrete evaluations\<close>

text \<open>
  A runtime with the limits of a stock SQLite build. Its list of inherited names is a
  sample of what CPython and the declarative base provide, its \<open>tie_rank\<close> keeps ties in
  storage order, its \<open>random_rowid\<close> always draws 1, and its \<open>row_fits\<close> allows 64 bytes
  for what the engine adds to the two strings of a row.
\<close>

definition stock :: runtime where
  "stock =
     \<lparr>inherited = (\<lambda>name. name \<in> set (map str_of
         [''metadata'', ''registry'', ''__table__'', ''__mapper__'', ''__init__'',
          ''__class__'', ''__module__'', ''__dict__'', ''__eq__'', ''__ne__'', ''__lt__'',
          ''__hash__'', ''__repr__'', ''__str__'', ''__name__'', ''__qualname__'',
          ''__bases__'', ''__mro__'', ''mro'', ''__weakref__''])),
      tie_rank = (\<lambda>r. 0),
      random_rowid = (\<lambda>rows. 1),
      limit_length = 1000000000,
      limit_like = 50000,
      row_fits = (\<lambda>r. (case Sneaker.brand r of None \<Rightarrow> 0 | Some b \<Rightarrow> utf8_len b)
                       + (case Sneaker.model r of None \<Rightarrow> 0 | Some m \<Rightarrow> utf8_len m)
                       + 64 \<le> 1000000000)\<rparr>"

definition nike :: Sneaker where
  "nike = \<lparr>Sneaker.id' = 1, Sneaker.brand = Some (str_of ''Nike''),
           Sneaker.model = Some (str_of ''Air''), Sneaker.price = Some 100\<rparr>"

definition puma :: Sneaker where
  "puma = \<lparr>Sneaker.id' = 2, Sneaker.brand = Some (str_of ''Puma''),
           Sneaker.model = Some (str_of ''Suede''), Sneaker.price = Some 80\<rparr>"

definition vans :: Sneaker where
  "vans = \<lparr>Sneaker.id' = 3, Sneaker.brand = Some (str_of ''Vans''),
           Sneaker.model = Some (str_of ''Nixon Pro''), Sneaker.price = Some 90\<rparr>"

definition shelf :: db where
  "shelf = [nike, puma, vans]"

section \<open>Properties of the record store\<close>

subsection \<open>Evaluating the example runtime\<close>

lemma stock_limits:
  "limit_length stock = 1000000000" "limit_like stock = 50000"
  "random_rowid stock rows = 1" "tie_rank stock r = 0"
  by (simp_all add: stock_def)

lemma row_fits_stock:
  "row_fits stock r =
     ((case Sneaker.brand r of None \<Rightarrow> 0 | Some b \<Rightarrow> utf8_len b)
      + (case Sneaker.model r of None \<Rightarrow> 0 | Some m \<Rightarrow> utf8_len m) + 64 \<le> 1000000000)"
  by (simp add: stock_def)

lemma utf8_len_replicate: "c < 128 \<Longrightarrow> utf8_len (replicate n c) = n"
  by (simp add: utf8_len_def sum_list_replicate)

lemma encodable_replicate: "c < 55296 \<Longrightarrow> encodable (replicate n c)"
  by (simp add: encodable_def list_all_iff)

lemma storable_Nike: "storable_str stock (str_of ''Nike'')"
  by (simp add: storable_str_def encodable_def utf8_len_def str_of_def stock_limits)

lemma storable_Air: "storable_str stock (str_of ''Air'')"
  by (simp add: storable_str_def encodable_def utf8_len_def str_of_def stock_limits)

lemma row_fits_nike: "row_fits stock nike"
  by (simp add: row_fits_stock nike_def utf8_len_def str_of_def)

subsection \<open>Lookup, insertion and update of single rows\<close>

lemma find_insort_new:
  "\<forall>r\<in>set rows. id' r \<noteq> id' x \<Longrightarrow>
     find (\<lambda>r. id' r = id' x) (insort_key id' x rows) = Some x"
  by (induction rows) auto

lemma get_by_id_absent:
  "storable_int i \<Longrightarrow> i \<notin> id' ` set rows \<Longrightarrow> get_by_id rows i = Inr None"
  by (auto simp: get_by_id_def find_None_iff)

lemma get_by_id_found_storable: "get_by_id rows i = Inr x \<Longrightarrow> storable_int i"
  by (simp add: get_by_id_def split: if_splits)

lemma setattrs_id: "id' (setattrs r u) = id' r"
  by (simp add: setattrs_def)

lemma find_map_setattrs:
  "find (\<lambda>r. id' r = i) (map (\<lambda>r. if id' r = i then setattrs r u else r) rows)
     = map_option (\<lambda>r. setattrs r u) (find (\<lambda>r. id' r = i) rows)"
  by (induction rows) (auto simp: setattrs_id)

lemma setattrs_empty:
  "setattrs r \<lparr>SneakerUpdate.brand = None, SneakerUpdate.model = None,
      SneakerUpdate.price = None\<rparr> = r"
  by (simp add: setattrs_def)

lemma create_done:
  assumes "create_accepted rt rows d"
  shows "create rt rows d =
    (Inr \<lparr>Sneaker.id' = new_rowid rt rows, Sneaker.brand = Some (SneakerCreate.brand d),
          Sneaker.model = Some (SneakerCreate.model d),
          Sneaker.price = Some (SneakerCreate.price d)\<rparr>,
     insort_key id' \<lparr>Sneaker.id' = new_rowid rt rows,
          Sneaker.brand = Some (SneakerCreate.brand d),
          Sneaker.model = Some (SneakerCreate.model d),
          Sneaker.price = Some (SneakerCreate.price d)\<rparr> rows)"
proof -
  let ?new = "\<lparr>Sneaker.id' = new_rowid rt rows, Sneaker.brand = Some (SneakerCreate.brand d),
          Sneaker.model = Some (SneakerCreate.model d),
          Sneaker.price = Some (SneakerCreate.price d)\<rparr>"
  have st: "storable_int (new_rowid rt rows)"
    and fr: "new_rowid rt rows \<notin> set (map id' rows)"
    using assms by (simp_all add: create_accepted_def)
  have "\<forall>r\<in>set rows. id' r \<noteq> id' ?new" using fr by force
  then have "find (\<lambda>r. id' r = id' ?new) (insort_key id' ?new rows) = Some ?new"
    by (rule find_insort_new)
  then have "get_by_id (insort_key id' ?new rows) (new_rowid rt rows) = Inr (Some ?new)"
    using st by (simp add: get_by_id_def)
  then show ?thesis using assms by (simp add: create_def Let_def)
qed

lemma create_refused:
  "\<not> create_accepted rt rows d \<Longrightarrow> create rt rows d = (Inl Refused, rows)"
  by (simp add: create_def Let_def)

lemma update_found:
  assumes "get_by_id rows i = Inr (Some r)" and "update_accepted rt r (setattrs r u)"
  shows "update rt rows i u =
       (Inr (Some (setattrs r u)),
        map (\<lambda>x. if id' x = i then setattrs x u else x) rows)"
proof -
  have st: "storable_int i" using assms(1) by (rule get_by_id_found_storable)
  then have f: "find (\<lambda>r. id' r = i) rows = Some r"
    using assms(1) by (simp add: get_by_id_def)
  have "get_by_id (map (\<lambda>x. if id' x = i then setattrs x u else x) rows) i
          = Inr (Some (setattrs r u))"
    using st f by (simp add: get_by_id_def find_map_setattrs)
  then show ?thesis using assms by (simp add: update_def Let_def)
qed

lemma update_refused:
  "get_by_id rows i = Inr (Some r) \<Longrightarrow> \<not> update_accepted rt r (setattrs r u) \<Longrightarrow>
     update rt rows i u = (Inl Refused, rows)"
  by (simp add: update_def)

text \<open>
  On a table whose keys are positive and below the largest 64-bit integer, the new key
  is one the engine can hold and no row has.
\<close>

lemma new_rowid_ordinary:
  assumes "\<forall>r\<in>set rows. 1 \<le> id' r \<and> id' r < 9223372036854775807"
  shows "storable_int (new_rowid rt rows) \<and> new_rowid rt rows \<notin> set (map id' rows)"
proof (cases "rows = []")
  case True
  then show ?thesis by (simp add: new_rowid_def storable_int_def)
next
  case False
  let ?m = "Max (set (map id' rows))"
  have fin: "finite (set (map id' rows))" by simp
  have ne: "set (map id' rows) \<noteq> {}" using False by simp
  have mem: "?m \<in> set (map id' rows)" using Max_in [OF fin ne] .
  then obtain r where r: "r \<in> set rows" "id' r = ?m" by auto
  then have b: "1 \<le> ?m" "?m < 9223372036854775807" using assms by metis+
  have "\<forall>k\<in>set (map id' rows). k \<le> ?m" using Max_ge [OF fin] by blast
  then have fresh: "?m + 1 \<notin> set (map id' rows)" by fastforce
  have eq: "new_rowid rt rows = ?m + 1" using False b(2) by (simp add: new_rowid_def)
  have "storable_int (?m + 1)" using b by (simp add: storable_int_def)
  then show ?thesis using fresh eq by metis
qed

text \<open>
  On such a table the commit of a create goes through whenever the driver can bind the
  three values and the row is within the engine's size limit.
\<close>

lemma create_accepted_ordinary:
  assumes "storable_str rt (SneakerCreate.brand d)" and "storable_str rt (SneakerCreate.model d)"
    and "storable_int (SneakerCreate.price d)"
    and "\<forall>r\<in>set rows. 1 \<le> id' r \<and> id' r < 9223372036854775807"
    and "row_fits rt \<lparr>Sneaker.id' = new_rowid rt rows,
           Sneaker.brand = Some (SneakerCreate.brand d),
           Sneaker.model = Some (SneakerCreate.model d),
           Sneaker.price = Some (SneakerCreate.price d)\<rparr>"
  shows "create_accepted rt rows d"
  using assms(1,2,3,5) new_rowid_ordinary [OF assms(4), of rt]
  by (simp add: create_accepted_def)

lemma create_accepted_Nike:
  "create_accepted stock [] \<lparr>SneakerCreate.brand = str_of ''Nike'', SneakerCreate.model = str_of ''Air'',
      SneakerCreate.price = 100\<rparr>"
proof -
  have "row_fits stock \<lparr>Sneaker.id' = 1, Sneaker.brand = Some (str_of ''Nike''),
      Sneaker.model = Some (str_of ''Air''), Sneaker.price = Some 100\<rparr>"
    by (simp add: row_fits_stock utf8_len_def str_of_def)
  then show ?thesis
    by (simp add: create_accepted_def storable_Nike storable_Air storable_int_def
        new_rowid_def)
qed

text \<open>
  C1, as the claim states it, fails: a price of \<open>2^63\<close> is an \<open>int\<close>, the input is valid for
  \<open>SneakerCreate\<close>, and \<open>create\<close> ends in the driver's error with nothing stored.
\<close>

theorem create_price_counterexample:
  "create stock [] \<lparr>SneakerCreate.brand = str_of ''Nike'', SneakerCreate.model = str_of ''Air'',
      SneakerCreate.price = 9223372036854775808\<rparr> = (Inl Refused, [])"
  by (rule create_refused) (simp add: create_accepted_def storable_int_def)

text \<open>
  The same for a brand the driver cannot encode, for one over the engine's length limit,
  and for a row over the engine's size limit though each of its strings is within the
  length limit.
\<close>

lemma create_string_counterexamples:
  "create stock [] \<lparr>SneakerCreate.brand = [55296], SneakerCreate.model = str_of ''Air'',
      SneakerCreate.price = 100\<rparr> = (Inl Refused, [])"
  "create stock [] \<lparr>SneakerCreate.brand = replicate 1000000001 97,
      SneakerCreate.model = str_of ''Air'', SneakerCreate.price = 100\<rparr> = (Inl Refused, [])"
  "storable_str stock (replicate 600000000 97)"
  "create stock [] \<lparr>SneakerCreate.brand = replicate 600000000 97,
      SneakerCreate.model = replicate 600000000 97, SneakerCreate.price = 100\<rparr>
     = (Inl Refused, [])"
proof -
  show "create stock [] \<lparr>SneakerCreate.brand = [55296], SneakerCreate.model = str_of ''Air'',
      SneakerCreate.price = 100\<rparr> = (Inl Refused, [])"
    by (rule create_refused) (simp add: create_accepted_def storable_str_def encodable_def)
  show "create stock [] \<lparr>SneakerCreate.brand = replicate 1000000001 97,
      SneakerCreate.model = str_of ''Air'', SneakerCreate.price = 100\<rparr> = (Inl Refused, [])"
    by (rule create_refused)
      (simp add: create_accepted_def storable_str_def utf8_len_replicate stock_limits)
  show "storable_str stock (replicate 600000000 97)"
    by (simp add: storable_str_def utf8_len_replicate encodable_replicate stock_limits)
  show "create stock [] \<lparr>SneakerCreate.brand = replicate 600000000 97,
      SneakerCreate.model = replicate 600000000 97, SneakerCreate.price = 100\<rparr>
     = (Inl Refused, [])"
    by (rule create_refused)
      (simp add: create_accepted_def row_fits_stock utf8_len_replicate)
qed

text \<open>
  And for a table whose largest key is the largest 64-bit integer, when the engine's
  draws end on a key in use.
\<close>

lemma create_key_counterexample:
  "create stock [nike, nike\<lparr>id' := 9223372036854775807\<rparr>]
      \<lparr>SneakerCreate.brand = str_of ''Nike'', SneakerCreate.model = str_of ''Air'',
         SneakerCreate.price = 100\<rparr>
     = (Inl Refused, [nike, nike\<lparr>id' := 9223372036854775807\<rparr>])"
proof -
  have "new_rowid stock [nike, nike\<lparr>id' := 9223372036854775807\<rparr>] = 1"
    by (simp add: new_rowid_def stock_limits nike_def)
  then show ?thesis
    by (intro create_refused) (simp add: create_accepted_def nike_def)
qed

text \<open>
  C1, amended. For every create input whose commit goes through (price within the signed
  64-bit range, brand and model encodable and within the engine's limits, a free key for
  the row), \<open>create\<close> returns a row whose id is the key the table assigns and whose other
  fields are the input's, and \<open>get_by_id\<close> on the table left by the create, with that id,
  returns the same row.
\<close>

theorem create_then_get:
  assumes "create_accepted rt rows sneaker_data"
  shows "\<exists>r rows'. create rt rows sneaker_data = (Inr r, rows')
        \<and> id' r = new_rowid rt rows
        \<and> get_by_id rows' (id' r) = Inr (Some r)
        \<and> Sneaker.brand r = Some (SneakerCreate.brand sneaker_data)
        \<and> Sneaker.model r = Some (SneakerCreate.model sneaker_data)
        \<and> Sneaker.price r = Some (SneakerCreate.price sneaker_data)"
proof -
  let ?new = "\<lparr>Sneaker.id' = new_rowid rt rows,
          Sneaker.brand = Some (SneakerCreate.brand sneaker_data),
          Sneaker.model = Some (SneakerCreate.model sneaker_data),
          Sneaker.price = Some (SneakerCreate.price sneaker_data)\<rparr>"
  have st: "storable_int (new_rowid rt rows)"
    and fr: "new_rowid rt rows \<notin> set (map id' rows)"
    using assms by (simp_all add: create_accepted_def)
  have "\<forall>r\<in>set rows. id' r \<noteq> id' ?new" using fr by force
  then have "find (\<lambda>r. id' r = id' ?new) (insort_key id' ?new rows) = Some ?new"
    by (rule find_insort_new)
  then have g: "get_by_id (insort_key id' ?new rows) (new_rowid rt rows) = Inr (Some ?new)"
    using st by (simp add: get_by_id_def)
  have "create rt rows sneaker_data = (Inr ?new, insort_key id' ?new rows)"
    using assms by (rule create_done)
  with g show ?thesis by simp
qed

theorem create_then_get_witness:
  "create_accepted stock [] \<lparr>SneakerCreate.brand = str_of ''Nike'', SneakerCreate.model = str_of ''Air'',
      SneakerCreate.price = 100\<rparr>
   \<and> create stock [] \<lparr>SneakerCreate.brand = str_of ''Nike'', SneakerCreate.model = str_of ''Air'',
      SneakerCreate.price = 100\<rparr> = (Inr nike, [nike])
   \<and> get_by_id [nike] 1 = Inr (Some nike)"
proof -
  have h: "create_accepted stock [] \<lparr>SneakerCreate.brand = str_of ''Nike'', SneakerCreate.model = str_of ''Air'',
      SneakerCreate.price = 100\<rparr>"
    by (rule create_accepted_Nike)
  have n: "new_rowid stock [] = 1" by (simp add: new_rowid_def)
  obtain r rows' where c: "create stock [] \<lparr>SneakerCreate.brand = str_of ''Nike'', SneakerCreate.model = str_of ''Air'',
      SneakerCreate.price = 100\<rparr> = (Inr r, rows')"
    and g: "get_by_id rows' (id' r) = Inr (Some r)" and i: "id' r = new_rowid stock []"
    using create_then_get [OF h] by blast
  have e: "create stock [] \<lparr>SneakerCreate.brand = str_of ''Nike'', SneakerCreate.model = str_of ''Air'',
      SneakerCreate.price = 100\<rparr> = (Inr nike, [nike])"
    using create_done [OF h] by (simp add: n nike_def)
  from c e have "r = nike" "rows' = [nike]" by simp_all
  with g i n have "get_by_id [nike] 1 = Inr (Some nike)" by simp
  with h e show ?thesis by simp
qed

text \<open>
  C2, as the claim states it, fails: \<open>2^63\<close> is the id of no row, and \<open>get_by_id\<close>, \<open>update\<close>
  and \<open>delete\<close> each end in the driver's error rather than report absence.
\<close>

theorem absent_id_counterexample:
  "(9223372036854775808::int) \<notin> id' ` set [nike]
   \<and> get_by_id [nike] 9223372036854775808 = Inl Refused
   \<and> update stock [nike] 9223372036854775808
        \<lparr>SneakerUpdate.brand = None, SneakerUpdate.model = None,
           SneakerUpdate.price = Some (Some 120)\<rparr> = (Inl Refused, [nike])
   \<and> delete [nike] 9223372036854775808 = (Inl Refused, [nike])"
  by (simp add: get_by_id_def update_def delete_def storable_int_def nike_def)

text \<open>
  C2, amended. For an id within the signed 64-bit range that no row of the table has,
  \<open>get_by_id\<close> returns \<open>None\<close>, \<open>update\<close> returns \<open>None\<close> and leaves the table as it was, and
  \<open>delete\<close> returns \<open>False\<close> and leaves the table as it was; none of the three ends in an
  error.
\<close>

theorem absent_id_reports_absence:
  assumes "storable_int sneaker_id" and "sneaker_id \<notin> id' ` set rows"
  shows "get_by_id rows sneaker_id = Inr None
     \<and> update rt rows sneaker_id sneaker_data = (Inr None, rows)
     \<and> delete rows sneaker_id = (Inr False, rows)"
proof -
  have "get_by_id rows sneaker_id = Inr None" using assms by (rule get_by_id_absent)
  then show ?thesis by (simp add: update_def delete_def)
qed

theorem absent_id_reports_absence_witness:
  "storable_int 7 \<and> (7::int) \<notin> id' ` set [nike]
   \<and> get_by_id [nike] 7 = Inr None
   \<and> update stock [nike] 7 \<lparr>SneakerUpdate.brand = None, SneakerUpdate.model = None,
        SneakerUpdate.price = Some (Some 120)\<rparr> = (Inr None, [nike])
   \<and> delete [nike] 7 = (Inr False, [nike])"
proof -
  have h1: "storable_int 7" by (simp add: storable_int_def)
  have h2: "(7::int) \<notin> id' ` set [nike]" by (simp add: nike_def)
  show ?thesis
    using h1 h2 absent_id_reports_absence [OF h1 h2, where rt = stock
        and sneaker_data = "\<lparr>SneakerUpdate.brand = None, SneakerUpdate.model = None,
          SneakerUpdate.price = Some (Some 120)\<rparr>"]
    by simp
qed

text \<open>
  C3, as the claim states it, fails: row 1 exists, the partial input supplies a price of
  \<open>2^63\<close>, and \<open>update\<close> ends in the driver's error with the row as it was.
\<close>

theorem update_price_counterexample:
  "get_by_id [nike] 1 = Inr (Some nike)
   \<and> update stock [nike] 1 \<lparr>SneakerUpdate.brand = None, SneakerUpdate.model = None,
        SneakerUpdate.price = Some (Some 9223372036854775808)\<rparr> = (Inl Refused, [nike])"
proof -
  have g: "get_by_id [nike] 1 = Inr (Some nike)"
    by (simp add: get_by_id_def storable_int_def nike_def)
  have "\<not> update_accepted stock nike (setattrs nike \<lparr>SneakerUpdate.brand = None,
          SneakerUpdate.model = None, SneakerUpdate.price = Some (Some 9223372036854775808)\<rparr>)"
    by (simp add: update_accepted_def setattrs_def storable_int_def nike_def)
  with g show ?thesis by (simp add: update_refused)
qed

text \<open>The same for a brand the driver cannot encode and for one over the length limit.\<close>

lemma update_string_counterexamples:
  "update stock [nike] 1 \<lparr>SneakerUpdate.brand = Some (Some [55296]),
      SneakerUpdate.model = None, SneakerUpdate.price = None\<rparr> = (Inl Refused, [nike])"
  "update stock [nike] 1 \<lparr>SneakerUpdate.brand = Some (Some (replicate 1000000001 97)),
      SneakerUpdate.model = None, SneakerUpdate.price = None\<rparr> = (Inl Refused, [nike])"
proof -
  have g: "get_by_id [nike] 1 = Inr (Some nike)"
    by (simp add: get_by_id_def storable_int_def nike_def)
  have "\<not> update_accepted stock nike (setattrs nike \<lparr>SneakerUpdate.brand = Some (Some [55296]),
          SneakerUpdate.model = None, SneakerUpdate.price = None\<rparr>)"
    by (simp add: update_accepted_def setattrs_def storable_str_def encodable_def nike_def
        str_of_def)
  with g show "update stock [nike] 1 \<lparr>SneakerUpdate.brand = Some (Some [55296]),
      SneakerUpdate.model = None, SneakerUpdate.price = None\<rparr> = (Inl Refused, [nike])"
    by (simp add: update_refused)
  have "length (replicate 1000000001 (97::nat)) \<noteq> length (str_of ''Nike'')"
    by (simp add: str_of_def)
  then have "replicate 1000000001 (97::nat) \<noteq> str_of ''Nike''"
    by (rule contrapos_nn) (erule arg_cong)
  then have "\<not> update_accepted stock nike (setattrs nike
      \<lparr>SneakerUpdate.brand = Some (Some (replicate 1000000001 97)),
          SneakerUpdate.model = None, SneakerUpdate.price = None\<rparr>)"
    by (simp add: update_accepted_def setattrs_def storable_str_def utf8_len_replicate
        stock_limits nike_def)
  with g show "update stock [nike] 1
      \<lparr>SneakerUpdate.brand = Some (Some (replicate 1000000001 97)),
      SneakerUpdate.model = None, SneakerUpdate.price = None\<rparr> = (Inl Refused, [nike])"
    by (simp add: update_refused)
qed

text \<open>
  C3, amended. For an id that the table has and a partial input whose commit goes
  through (every changed value is \<open>None\<close>, a price within the signed 64-bit range, or a
  string that is encodable and within the engine's limits), \<open>update\<close> returns and stores
  the row in which each supplied field has the supplied value and each omitted field, and
  the id, the value it had; with no field supplied the row and the table are unchanged.
\<close>

theorem update_applies_supplied_fields:
  assumes "get_by_id rows sneaker_id = Inr (Some r)"
    and "update_accepted rt r (setattrs r sneaker_data)"
  shows "(\<exists>r' rows'. update rt rows sneaker_id sneaker_data = (Inr (Some r'), rows')
           \<and> get_by_id rows' sneaker_id = Inr (Some r')
           \<and> id' r' = id' r
           \<and> Sneaker.brand r' = (case SneakerUpdate.brand sneaker_data of
                                   None \<Rightarrow> Sneaker.brand r | Some v \<Rightarrow> v)
           \<and> Sneaker.model r' = (case SneakerUpdate.model sneaker_data of
                                   None \<Rightarrow> Sneaker.model r | Some v \<Rightarrow> v)
           \<and> Sneaker.price r' = (case SneakerUpdate.price sneaker_data of
                                   None \<Rightarrow> Sneaker.price r | Some v \<Rightarrow> v))
       \<and> update rt rows sneaker_id
           \<lparr>SneakerUpdate.brand = None, SneakerUpdate.model = None,
              SneakerUpdate.price = None\<rparr> = (Inr (Some r), rows)"
proof
  let ?rows' = "map (\<lambda>x. if id' x = sneaker_id then setattrs x sneaker_data else x) rows"
  have st: "storable_int sneaker_id" using assms(1) by (rule get_by_id_found_storable)
  then have f: "find (\<lambda>r. id' r = sneaker_id) rows = Some r"
    using assms(1) by (simp add: get_by_id_def)
  have u: "update rt rows sneaker_id sneaker_data = (Inr (Some (setattrs r sneaker_data)), ?rows')"
    using assms by (rule update_found)
  have g: "get_by_id ?rows' sneaker_id = Inr (Some (setattrs r sneaker_data))"
    using st f by (simp add: get_by_id_def find_map_setattrs)
  show "\<exists>r' rows'. update rt rows sneaker_id sneaker_data = (Inr (Some r'), rows')
           \<and> get_by_id rows' sneaker_id = Inr (Some r')
           \<and> id' r' = id' r
           \<and> Sneaker.brand r' = (case SneakerUpdate.brand sneaker_data of
                                   None \<Rightarrow> Sneaker.brand r | Some v \<Rightarrow> v)
           \<and> Sneaker.model r' = (case SneakerUpdate.model sneaker_data of
                                   None \<Rightarrow> Sneaker.model r | Some v \<Rightarrow> v)
           \<and> Sneaker.price r' = (case SneakerUpdate.price sneaker_data of
                                   None \<Rightarrow> Sneaker.price r | Some v \<Rightarrow> v)"
    using u g by (simp add: setattrs_def)
  have a: "update_accepted rt r (setattrs r \<lparr>SneakerUpdate.brand = None,
        SneakerUpdate.model = None, SneakerUpdate.price = None\<rparr>)"
    by (simp add: setattrs_empty update_accepted_def)
  show "update rt rows sneaker_id
           \<lparr>SneakerUpdate.brand = None, SneakerUpdate.model = None,
              SneakerUpdate.price = None\<rparr> = (Inr (Some r), rows)"
    using update_found [OF assms(1) a] by (simp add: setattrs_empty map_idI)
qed

theorem update_applies_supplied_fields_witness:
  "get_by_id [nike] 1 = Inr (Some nike)
   \<and> update_accepted stock nike (setattrs nike \<lparr>SneakerUpdate.brand = None,
        SneakerUpdate.model = None, SneakerUpdate.price = Some (Some 120)\<rparr>)
   \<and> update stock [nike] 1 \<lparr>SneakerUpdate.brand = None, SneakerUpdate.model = None,
        SneakerUpdate.price = Some (Some 120)\<rparr>
     = (Inr (Some (nike\<lparr>Sneaker.price := Some 120\<rparr>)), [nike\<lparr>Sneaker.price := Some 120\<rparr>])
   \<and> update stock [nike] 1 \<lparr>SneakerUpdate.brand = None, SneakerUpdate.model = None,
        SneakerUpdate.price = None\<rparr> = (Inr (Some nike), [nike])"
proof -
  let ?u = "\<lparr>SneakerUpdate.brand = None, SneakerUpdate.model = None,
        SneakerUpdate.price = Some (Some 120)\<rparr>"
  have h: "get_by_id [nike] 1 = Inr (Some nike)"
    by (simp add: get_by_id_def storable_int_def nike_def)
  have s: "setattrs nike ?u = nike\<lparr>Sneaker.price := Some 120\<rparr>"
    by (simp add: setattrs_def)
  have i: "id' nike = 1" by (simp add: nike_def)
  have rf: "row_fits stock (nike\<lparr>Sneaker.price := Some 120\<rparr>)"
    by (simp add: row_fits_stock nike_def utf8_len_def str_of_def)
  have a: "update_accepted stock nike (setattrs nike ?u)"
    unfolding s using rf by (simp add: update_accepted_def storable_int_def)
  have e: "update stock [nike] 1 ?u
     = (Inr (Some (nike\<lparr>Sneaker.price := Some 120\<rparr>)), [nike\<lparr>Sneaker.price := Some 120\<rparr>])"
    using update_found [OF h a] i by (simp add: s)
  have n: "update stock [nike] 1 \<lparr>SneakerUpdate.brand = None, SneakerUpdate.model = None,
        SneakerUpdate.price = None\<rparr> = (Inr (Some nike), [nike])"
    using update_applies_supplied_fields [OF h a] by blast
  show ?thesis
    using h a e n by blast
qed

subsection \<open>Falsy filter values\<close>

lemma value_filters_falsy:
  "apply_value_filters rows filter_brand (Some 0) filter_price_max
     = apply_value_filters rows filter_brand None filter_price_max"
  "apply_value_filters rows filter_brand filter_price_min (Some 0)
     = apply_value_filters rows filter_brand filter_price_min None"
  "apply_value_filters rows (Some []) filter_price_min filter_price_max
     = apply_value_filters rows None filter_price_min filter_price_max"
  by (simp_all add: apply_value_filters_def truthy_int_def truthy_str_def)

lemma filters_falsy:
  "apply_filters rows filter_brand (Some 0) filter_price_max search
     = apply_filters rows filter_brand None filter_price_max search"
  "apply_filters rows filter_brand filter_price_min (Some 0) search
     = apply_filters rows filter_brand filter_price_min None search"
  "apply_filters rows (Some []) filter_price_min filter_price_max search
     = apply_filters rows None filter_price_min filter_price_max search"
  "apply_filters rows filter_brand filter_price_min filter_price_max (Some [])
     = apply_filters rows filter_brand filter_price_min filter_price_max None"
  by (simp_all add: apply_filters_def value_filters_falsy truthy_str_def)

lemma query_accepted_falsy:
  "query_accepted rt rows skip limit filter_brand (Some 0) filter_price_max search
     = query_accepted rt rows skip limit filter_brand None filter_price_max search"
  "query_accepted rt rows skip limit filter_brand filter_price_min (Some 0) search
     = query_accepted rt rows skip limit filter_brand filter_price_min None search"
  "query_accepted rt rows skip limit (Some []) filter_price_min filter_price_max search
     = query_accepted rt rows skip limit None filter_price_min filter_price_max search"
  "query_accepted rt rows skip limit filter_brand filter_price_min filter_price_max (Some [])
     = query_accepted rt rows skip limit filter_brand filter_price_min filter_price_max None"
  by (simp_all add: query_accepted_def value_filters_falsy truthy_int_def truthy_str_def)

text \<open>
  C4. A \<open>filter_price_min\<close> of 0 gives the same result as an absent one, and so does a
  \<open>filter_price_max\<close> of 0, whatever the other parameters, the table and the runtime are.
\<close>

theorem zero_price_bound_is_unset:
  "get_all rt rows skip limit sort_by sort_order filter_brand (Some 0) filter_price_max search
     = get_all rt rows skip limit sort_by sort_order filter_brand None filter_price_max search
   \<and> get_all rt rows skip limit sort_by sort_order filter_brand filter_price_min (Some 0)
         search
     = get_all rt rows skip limit sort_by sort_order filter_brand filter_price_min None
         search"
  by (simp add: get_all_def filters_falsy query_accepted_falsy cong: sum.case_cong)

text \<open>
  C10. An empty string for \<open>filter_brand\<close> gives the same result as an absent one, and so
  does an empty string for \<open>search\<close>, whatever the other parameters, the table and the
  runtime are.
\<close>

theorem empty_string_filter_is_unset:
  "get_all rt rows skip limit sort_by sort_order (Some []) filter_price_min filter_price_max
       search
     = get_all rt rows skip limit sort_by sort_order None filter_price_min filter_price_max
         search
   \<and> get_all rt rows skip limit sort_by sort_order filter_brand filter_price_min
         filter_price_max (Some [])
     = get_all rt rows skip limit sort_by sort_order filter_brand filter_price_min
         filter_price_max None"
  by (simp add: get_all_def filters_falsy query_accepted_falsy cong: sum.case_cong)

subsection \<open>Queries that run\<close>

lemma query_accepted_plain:
  "storable_int skip \<Longrightarrow> storable_int limit \<Longrightarrow>
     query_accepted rt rows skip limit None None None None"
  by (simp add: query_accepted_def truthy_str_def truthy_int_def)

lemma query_accepted_limit_0:
  "query_accepted rt rows skip limit filter_brand filter_price_min filter_price_max search \<Longrightarrow>
     query_accepted rt rows skip 0 filter_brand filter_price_min filter_price_max search"
  by (simp add: query_accepted_def storable_int_def split: if_splits)

lemma sort_clause_None: "sort_clause rt None sort_order = Inr None"
  by (simp add: sort_clause_def truthy_str_def)

lemma sort_by_usable_clause:
  "sort_by_usable rt sort_by sort_order \<Longrightarrow> \<exists>ob. sort_clause rt sort_by sort_order = Inr ob"
  by (auto simp: sort_by_usable_def sort_clause_def split: if_splits attr.splits)

lemma get_all_unsorted:
  "query_accepted rt rows skip limit filter_brand filter_price_min filter_price_max search \<Longrightarrow>
     get_all rt rows skip limit None sort_order filter_brand filter_price_min filter_price_max
         search
       = Inr (paginate skip limit
                (apply_filters rows filter_brand filter_price_min filter_price_max search))"
  by (simp add: get_all_def sort_clause_None order_by_def)

lemma storable_small: "storable_int 0" "storable_int 1" "storable_int 3" "storable_int 10"
  by (simp_all add: storable_int_def)

lemma shelf_listed:
  "get_all stock shelf 0 10 None (Some (str_of ''asc'')) None None None None = Inr shelf"
proof -
  have "paginate 0 10 (apply_filters shelf None None None None) = shelf"
    by code_simp
  then show ?thesis
    using get_all_unsorted [OF query_accepted_plain [OF storable_small(1) storable_small(4)]]
    by simp
qed

theorem zero_price_bound_is_unset_witness:
  "get_all stock shelf 0 10 None (Some (str_of ''asc'')) None (Some 0) None None = Inr shelf
   \<and> get_all stock shelf 0 10 None (Some (str_of ''asc'')) None None None None = Inr shelf
   \<and> get_all stock shelf 0 10 None (Some (str_of ''asc'')) None None (Some 0) None = Inr shelf"
  using shelf_listed
    zero_price_bound_is_unset [where rt = stock and rows = shelf and skip = 0 and limit = 10
      and sort_by = None and sort_order = "Some (str_of ''asc'')" and filter_brand = None
      and filter_price_min = None and filter_price_max = None and search = None]
  by simp

theorem empty_string_filter_is_unset_witness:
  "get_all stock shelf 0 10 None (Some (str_of ''asc'')) (Some []) None None None = Inr shelf
   \<and> get_all stock shelf 0 10 None (Some (str_of ''asc'')) None None None None = Inr shelf
   \<and> get_all stock shelf 0 10 None (Some (str_of ''asc'')) None None None (Some []) = Inr shelf"
  using shelf_listed
    empty_string_filter_is_unset [where rt = stock and rows = shelf and skip = 0
      and limit = 10 and sort_by = None and sort_order = "Some (str_of ''asc'')"
      and filter_brand = None and filter_price_min = None and filter_price_max = None
      and search = None]
  by simp

subsection \<open>Sorting and pagination\<close>

lemma sorted_sort_asc: "sorted_wrt (col_le c) (sort_asc c rows)"
proof (cases c)
  case Col_id
  have "sorted (map id' (sort_key id' rows))" by (rule sorted_sort_key)
  then show ?thesis using Col_id by (simp add: sort_asc_def col_le_def [abs_def] sorted_map)
next
  case Col_brand
  have "sorted (map Sneaker.brand (sort_key Sneaker.brand rows))" by (rule sorted_sort_key)
  then show ?thesis
    using Col_brand by (simp add: sort_asc_def col_le_def [abs_def] sorted_map)
next
  case Col_model
  have "sorted (map Sneaker.model (sort_key Sneaker.model rows))" by (rule sorted_sort_key)
  then show ?thesis
    using Col_model by (simp add: sort_asc_def col_le_def [abs_def] sorted_map)
next
  case Col_price
  have "sorted (map Sneaker.price (sort_key Sneaker.price rows))" by (rule sorted_sort_key)
  then show ?thesis
    using Col_price by (simp add: sort_asc_def col_le_def [abs_def] sorted_map)
qed

lemma mset_sort_asc: "mset (sort_asc c rows) = mset rows"
  by (cases c) (simp_all add: sort_asc_def)

lemma sorted_wrt_paginate: "sorted_wrt R rows \<Longrightarrow> sorted_wrt R (paginate skip limit rows)"
  by (simp add: paginate_def Let_def)

lemma sorted_wrt_rev_flip: "sorted_wrt R xs \<Longrightarrow> sorted_wrt (\<lambda>a b. R b a) (rev xs)"
  by (simp add: sorted_wrt_rev)

lemma paginate_limit_0: "paginate skip 0 rows = []"
  by (simp add: paginate_def Let_def)

lemma paginate_skip_all: "int (length rows) \<le> skip \<Longrightarrow> paginate skip limit rows = []"
  by (cases rows) (auto simp: paginate_def Let_def)

lemma paginate_Nil: "paginate skip limit [] = []"
  by (simp add: paginate_def Let_def)

lemma length_order_by: "length (order_by rt ob rows) = length rows"
proof -
  have "mset (order_by rt ob rows) = mset rows"
    by (auto simp: order_by_def mset_sort_asc split: option.splits ordering.splits)
  then show ?thesis by (metis size_mset)
qed

lemma order_by_Nil: "order_by rt ob [] = []"
  using length_order_by [of rt ob "[]"] by simp

lemma column_name_not_empty: "getattr_Sneaker rt name = Column c \<Longrightarrow> name \<noteq> []"
  by (auto simp: getattr_Sneaker_def str_of_def split: if_splits)

text \<open>A name for which the lookup finds nothing leaves the query unsorted.\<close>

lemma sort_by_absent_is_skipped:
  "getattr_Sneaker rt name = Absent \<Longrightarrow>
     get_all rt rows skip limit (Some name) sort_order filter_brand filter_price_min
         filter_price_max search
     = get_all rt rows skip limit None sort_order filter_brand filter_price_min
         filter_price_max search"
  by (simp add: get_all_def sort_clause_def truthy_str_def)

text \<open>
  C5. The claim is that a \<open>sort_by\<close> naming no declared field is skipped without an
  error. \<open>__tablename__\<close> is not a declared field, yet the lookup finds the class
  attribute of that name, and the call on it raises: \<open>get_all\<close> ends in \<open>AttributeError\<close>
  for every table, every runtime and every value of the other parameters.
\<close>

theorem sort_by_tablename_raises:
  "get_all rt rows skip limit (Some (str_of ''__tablename__'')) sort_order filter_brand
       filter_price_min filter_price_max search = Inl AttributeError"
  by (simp add: get_all_def sort_clause_def truthy_str_def getattr_Sneaker_def str_of_def
      split: option.splits)

text \<open>
  C7, as the claim states it, fails: with \<open>skip\<close> at \<open>2^63\<close>, which is more than the three
  rows that match, the listing ends in the driver's error rather than return the empty
  sequence.
\<close>

theorem list_skip_counterexample:
  "int (length (apply_filters shelf None None None None)) \<le> 9223372036854775808
   \<and> get_all stock shelf 9223372036854775808 10 None (Some (str_of ''asc'')) None None None
        None = Inl Refused"
proof -
  have "int (length (apply_filters shelf None None None None)) \<le> 9223372036854775808"
    by (simp add: apply_filters_def apply_value_filters_def truthy_str_def truthy_int_def
        shelf_def)
  moreover have "\<not> query_accepted stock shelf 9223372036854775808 10 None None None None"
    by (simp add: query_accepted_def storable_int_def)
  ultimately show ?thesis by (simp add: get_all_def sort_clause_None)
qed

text \<open>
  The same for a price bound outside the 64-bit range, for a search string the driver
  cannot encode, and for a search string whose pattern is over the engine's \<open>LIKE\<close> limit:
  each listing has \<open>skip\<close> at the number of rows in the table.
\<close>

lemma list_refusal_counterexamples:
  "get_all stock shelf 3 10 None (Some (str_of ''asc'')) None (Some 9223372036854775808) None
      None = Inl Refused"
  "get_all stock shelf 3 10 None (Some (str_of ''asc'')) None None None (Some [55296])
      = Inl Refused"
  "get_all stock shelf 3 10 None (Some (str_of ''asc'')) None None None
      (Some (replicate 49999 97)) = Inl Refused"
proof -
  have "\<not> query_accepted stock shelf 3 10 None (Some 9223372036854775808) None None"
    by (simp add: query_accepted_def storable_int_def truthy_int_def)
  then show "get_all stock shelf 3 10 None (Some (str_of ''asc'')) None
      (Some 9223372036854775808) None None = Inl Refused"
    by (simp add: get_all_def sort_clause_None)
  have "\<not> query_accepted stock shelf 3 10 None None None (Some [55296])"
    by (simp add: query_accepted_def truthy_str_def truthy_int_def storable_str_def
        encodable_def)
  then show "get_all stock shelf 3 10 None (Some (str_of ''asc'')) None None None
      (Some [55296]) = Inl Refused"
    by (simp add: get_all_def sort_clause_None)
  have "apply_value_filters shelf None None None \<noteq> []"
    by (simp add: apply_value_filters_def truthy_str_def truthy_int_def shelf_def)
  moreover have "replicate 49999 (97::nat) \<noteq> []"
    by simp
  ultimately have "\<not> query_accepted stock shelf 3 10 None None None
      (Some (replicate 49999 97))"
    by (simp add: query_accepted_def truthy_str_def truthy_int_def utf8_len_replicate
        stock_limits)
  then show "get_all stock shelf 3 10 None (Some (str_of ''asc'')) None None None
      (Some (replicate 49999 97)) = Inl Refused"
    by (simp add: get_all_def sort_clause_None)
qed

text \<open>
  C7, amended. For every table and every list query that the driver and the engine
  accept (\<open>skip\<close>, \<open>limit\<close> and the applied price bounds within the signed 64-bit range,
  the applied brand and search strings encodable and within the engine's limits) and
  whose \<open>sort_by\<close> is absent, empty, the name of no attribute of the class, or the name of
  a column with a string \<open>sort_order\<close>: \<open>get_all\<close> returns a list, and the list is empty
  when \<open>limit\<close> is 0, when \<open>skip\<close> is at least the number of rows that pass the filters,
  and when no row passes them.
\<close>

theorem list_window_empty:
  assumes "sort_by_usable rt sort_by sort_order"
    and "query_accepted rt rows skip limit filter_brand filter_price_min filter_price_max
           search"
  shows "get_all rt rows skip 0 sort_by sort_order filter_brand filter_price_min
             filter_price_max search = Inr []
    \<and> (int (length (apply_filters rows filter_brand filter_price_min filter_price_max
                      search)) \<le> skip
        \<longrightarrow> get_all rt rows skip limit sort_by sort_order filter_brand filter_price_min
              filter_price_max search = Inr [])
    \<and> (apply_filters rows filter_brand filter_price_min filter_price_max search = []
        \<longrightarrow> get_all rt rows skip limit sort_by sort_order filter_brand filter_price_min
              filter_price_max search = Inr [])
    \<and> (\<exists>rs. get_all rt rows skip limit sort_by sort_order filter_brand filter_price_min
              filter_price_max search = Inr rs)"
proof -
  obtain ob where ob: "sort_clause rt sort_by sort_order = Inr ob"
    using sort_by_usable_clause [OF assms(1)] by blast
  have z: "query_accepted rt rows skip 0 filter_brand filter_price_min filter_price_max
             search"
    using assms(2) by (rule query_accepted_limit_0)
  show ?thesis
    using ob z assms(2)
    by (simp add: get_all_def paginate_limit_0 paginate_skip_all length_order_by
        order_by_Nil paginate_Nil)
qed

theorem list_window_empty_witness:
  "sort_by_usable stock None (Some (str_of ''asc''))
   \<and> query_accepted stock shelf 3 10 None None None None
   \<and> get_all stock shelf 3 0 None (Some (str_of ''asc'')) None None None None = Inr []
   \<and> get_all stock shelf 3 10 None (Some (str_of ''asc'')) None None None None = Inr []
   \<and> get_all stock shelf 0 10 None (Some (str_of ''asc'')) None None None None = Inr shelf"
proof -
  have h1: "sort_by_usable stock None (Some (str_of ''asc''))"
    by (simp add: sort_by_usable_def truthy_str_def)
  have h2: "query_accepted stock shelf 3 10 None None None None"
    by (rule query_accepted_plain) (rule storable_small)+
  have n: "int (length (apply_filters shelf None None None None)) \<le> 3"
    by (simp add: apply_filters_def apply_value_filters_def truthy_str_def truthy_int_def
        shelf_def)
  show ?thesis
    using h1 h2 n shelf_listed
      list_window_empty [OF h1 h2]
    by simp
qed

text \<open>
  C8. When \<open>sort_by\<close> names a column and \<open>sort_order\<close> is a string, \<open>get_all\<close> returns,
  unless the driver or the engine refuses the query, the window of a rearrangement of the
  rows that pass the filters; the rearrangement, and so the window, descends on the
  column when the lower-cased \<open>sort_order\<close> is \<open>desc\<close> and ascends on it for every other
  string.
\<close>

theorem sort_order_direction:
  assumes "getattr_Sneaker rt name = Column c"
  shows "\<exists>full.
       mset full = mset (apply_filters rows filter_brand filter_price_min filter_price_max
                           search)
     \<and> get_all rt rows skip limit (Some name) (Some sort_order) filter_brand filter_price_min
           filter_price_max search
         = (if query_accepted rt rows skip limit filter_brand filter_price_min
                 filter_price_max search
            then Inr (paginate skip limit full) else Inl Refused)
     \<and> (if lower sort_order = str_of ''desc''
        then sorted_wrt (\<lambda>a b. col_le c b a) full
             \<and> sorted_wrt (\<lambda>a b. col_le c b a) (paginate skip limit full)
        else sorted_wrt (col_le c) full \<and> sorted_wrt (col_le c) (paginate skip limit full))"
proof -
  let ?q = "apply_filters rows filter_brand filter_price_min filter_price_max search"
  let ?t = "sort_key (tie_rank rt) ?q"
  have "name \<noteq> []" using assms by (rule column_name_not_empty)
  then have t: "truthy_str (Some name)" by (simp add: truthy_str_def)
  show ?thesis
  proof (cases "lower sort_order = str_of ''desc''")
    case True
    let ?full = "rev (sort_asc c (rev ?t))"
    have s: "sorted_wrt (\<lambda>a b. col_le c b a) ?full"
      by (rule sorted_wrt_rev_flip) (rule sorted_sort_asc)
    have "get_all rt rows skip limit (Some name) (Some sort_order) filter_brand
            filter_price_min filter_price_max search
          = (if query_accepted rt rows skip limit filter_brand filter_price_min
                 filter_price_max search
             then Inr (paginate skip limit ?full) else Inl Refused)"
      using assms t True by (simp add: get_all_def sort_clause_def order_by_def)
    moreover have "mset ?full = mset ?q" by (simp add: mset_sort_asc)
    ultimately show ?thesis using True s sorted_wrt_paginate [OF s]
      by (intro exI [of _ ?full]) simp
  next
    case False
    let ?full = "sort_asc c ?t"
    have s: "sorted_wrt (col_le c) ?full" by (rule sorted_sort_asc)
    have "get_all rt rows skip limit (Some name) (Some sort_order) filter_brand
            filter_price_min filter_price_max search
          = (if query_accepted rt rows skip limit filter_brand filter_price_min
                 filter_price_max search
             then Inr (paginate skip limit ?full) else Inl Refused)"
      using assms t False by (simp add: get_all_def sort_clause_def order_by_def)
    moreover have "mset ?full = mset ?q" by (simp add: mset_sort_asc)
    ultimately show ?thesis using False s sorted_wrt_paginate [OF s]
      by (intro exI [of _ ?full]) simp
  qed
qed

lemma shelf_by_price:
  "get_all stock shelf 0 10 (Some (str_of ''price'')) (Some (str_of ''DESC'')) None None None
      None = Inr [nike, vans, puma]"
  "get_all stock shelf 0 10 (Some (str_of ''price'')) (Some (str_of ''down'')) None None None
      None = Inr [puma, vans, nike]"
proof -
  have a: "query_accepted stock shelf 0 10 None None None None"
    by (rule query_accepted_plain) (rule storable_small)+
  have d: "sort_clause stock (Some (str_of ''price'')) (Some (str_of ''DESC''))
             = Inr (Some (Desc Col_price))"
    by (simp add: sort_clause_def truthy_str_def getattr_Sneaker_def lower_def lower_cp_def
        str_of_def)
  have u: "sort_clause stock (Some (str_of ''price'')) (Some (str_of ''down''))
             = Inr (Some (Asc Col_price))"
    by (simp add: sort_clause_def truthy_str_def getattr_Sneaker_def lower_def lower_cp_def
        str_of_def)
  have t: "sort_key (tie_rank stock) (apply_filters shelf None None None None) = shelf"
    by (simp add: stock_limits apply_filters_def apply_value_filters_def truthy_str_def
        truthy_int_def shelf_def)
  have sd: "paginate 0 10 (rev (sort_asc Col_price (rev shelf))) = [nike, vans, puma]"
    by code_simp
  have su: "paginate 0 10 (sort_asc Col_price shelf) = [puma, vans, nike]"
    by code_simp
  show "get_all stock shelf 0 10 (Some (str_of ''price'')) (Some (str_of ''DESC'')) None None
      None None = Inr [nike, vans, puma]"
    using a d t sd by (simp add: get_all_def order_by_def)
  show "get_all stock shelf 0 10 (Some (str_of ''price'')) (Some (str_of ''down'')) None None
      None None = Inr [puma, vans, nike]"
    using a u t su by (simp add: get_all_def order_by_def)
qed

theorem sort_order_direction_witness:
  "getattr_Sneaker stock (str_of ''price'') = Column Col_price
   \<and> get_all stock shelf 0 10 (Some (str_of ''price'')) (Some (str_of ''DESC'')) None None
        None None = Inr [nike, vans, puma]
   \<and> get_all stock shelf 0 10 (Some (str_of ''price'')) (Some (str_of ''down'')) None None
        None None = Inr [puma, vans, nike]
   \<and> (\<exists>full. mset full = mset (apply_filters shelf None None None None)
        \<and> get_all stock shelf 0 10 (Some (str_of ''price'')) (Some (str_of ''DESC'')) None
              None None None
            = (if query_accepted stock shelf 0 10 None None None None
               then Inr (paginate 0 10 full) else Inl Refused)
        \<and> (if lower (str_of ''DESC'') = str_of ''desc''
           then sorted_wrt (\<lambda>a b. col_le Col_price b a) full
                \<and> sorted_wrt (\<lambda>a b. col_le Col_price b a) (paginate 0 10 full)
           else sorted_wrt (col_le Col_price) full
                \<and> sorted_wrt (col_le Col_price) (paginate 0 10 full)))"
proof -
  have h: "getattr_Sneaker stock (str_of ''price'') = Column Col_price"
    by (simp add: getattr_Sneaker_def str_of_def)
  show ?thesis
    using h shelf_by_price
      sort_order_direction [OF h, where rows = shelf and skip = 0 and limit = 10
        and sort_order = "str_of ''DESC''" and filter_brand = None
        and filter_price_min = None and filter_price_max = None and search = None]
    by blast
qed

subsection \<open>Identity of rows\<close>

lemma snd_create:
  "snd (create rt rows d) =
     (if create_accepted rt rows d
      then insort_key id' \<lparr>Sneaker.id' = new_rowid rt rows,
             Sneaker.brand = Some (SneakerCreate.brand d),
             Sneaker.model = Some (SneakerCreate.model d),
             Sneaker.price = Some (SneakerCreate.price d)\<rparr> rows
      else rows)"
  by (simp add: create_done create_refused)

lemma ids_update: "map id' (snd (update rt rows i u)) = map id' rows"
  by (auto simp: update_def Let_def setattrs_id split: sum.splits option.splits)

lemma snd_delete:
  "snd (delete rows i) = (if storable_int i then filter (\<lambda>r. id' r \<noteq> i) rows else rows)"
proof (cases "storable_int i")
  case False
  then show ?thesis by (simp add: delete_def get_by_id_def)
next
  case True
  show ?thesis
  proof (cases "find (\<lambda>r. id' r = i) rows")
    case None
    then have "i \<notin> id' ` set rows" by (auto simp: find_None_iff)
    then have "filter (\<lambda>r. id' r \<noteq> i) rows = rows" by (auto simp: filter_id_conv)
    then show ?thesis using None True by (simp add: delete_def get_by_id_def)
  next
    case (Some r)
    then show ?thesis using True by (simp add: delete_def get_by_id_def)
  qed
qed

lemma distinct_insort_key_id:
  "distinct (map id' rows) \<Longrightarrow> id' x \<notin> id' ` set rows \<Longrightarrow>
     distinct (map id' (insort_key id' x rows))"
  by (induction rows) (auto simp: set_insort_key)

lemma distinct_create:
  "distinct (map id' rows) \<Longrightarrow> distinct (map id' (snd (create rt rows d)))"
  by (auto simp: snd_create create_accepted_def intro!: distinct_insort_key_id)

lemma distinct_delete:
  "distinct (map id' rows) \<Longrightarrow> distinct (map id' (snd (delete rows i)))"
  by (simp add: snd_delete distinct_map_filter)

lemma reachable_distinct: "reachable rt rows \<Longrightarrow> distinct (map id' rows)"
proof (induction rule: reachable.induct)
  case initial
  show ?case by simp
next
  case (after_create rows sneaker_data)
  then show ?case by (simp add: distinct_create)
next
  case (after_update rows sneaker_id sneaker_data)
  then show ?case by (simp add: ids_update)
next
  case (after_delete rows sneaker_id)
  then show ?case by (simp add: distinct_delete)
qed

text \<open>
  C9. In every table the repository can produce no two rows share an id, and each
  committing method keeps the id of every row it keeps: \<open>create\<close> puts one row, with an
  id no row has, into the unchanged table, or leaves the table as it was when its commit
  is refused; \<open>update\<close> leaves the ids as they are, position by position; \<open>delete\<close>
  removes the rows with the given id and leaves the others as they are.
\<close>

theorem id_unique_and_immutable:
  assumes "reachable rt rows"
  shows "distinct (map id' rows)
    \<and> (if create_accepted rt rows created
       then \<exists>new. id' new \<notin> id' ` set rows
              \<and> snd (create rt rows created) = insort_key id' new rows
       else snd (create rt rows created) = rows)
    \<and> map id' (snd (update rt rows sneaker_id sneaker_data)) = map id' rows
    \<and> snd (delete rows sneaker_id)
        = (if storable_int sneaker_id then filter (\<lambda>r. id' r \<noteq> sneaker_id) rows
           else rows)"
proof -
  have "\<exists>new. id' new \<notin> id' ` set rows
          \<and> snd (create rt rows created) = insort_key id' new rows"
    if a: "create_accepted rt rows created"
  proof -
    let ?new = "\<lparr>Sneaker.id' = new_rowid rt rows,
             Sneaker.brand = Some (SneakerCreate.brand created),
             Sneaker.model = Some (SneakerCreate.model created),
             Sneaker.price = Some (SneakerCreate.price created)\<rparr>"
    have "id' ?new \<notin> id' ` set rows" using a by (simp add: create_accepted_def)
    moreover have "snd (create rt rows created) = insort_key id' ?new rows"
      using a by (simp add: snd_create)
    ultimately show ?thesis by blast
  qed
  moreover have "\<not> create_accepted rt rows created \<Longrightarrow> snd (create rt rows created) = rows"
    by (simp add: snd_create)
  ultimately show ?thesis
    using reachable_distinct [OF assms] ids_update snd_delete by simp
qed

theorem id_unique_and_immutable_witness:
  "reachable stock [nike]
   \<and> distinct (map id' [nike])
   \<and> map id' (snd (update stock [nike] 1 \<lparr>SneakerUpdate.brand = None,
        SneakerUpdate.model = None, SneakerUpdate.price = Some (Some 120)\<rparr>)) = map id' [nike]
   \<and> snd (delete [nike] 1) = []"
proof -
  have "snd (create stock [] \<lparr>SneakerCreate.brand = str_of ''Nike'',
      SneakerCreate.model = str_of ''Air'', SneakerCreate.price = 100\<rparr>) = [nike]"
    by (simp add: snd_create create_accepted_Nike new_rowid_def nike_def)
  then have h: "reachable stock [nike]"
    using after_create [OF initial, of stock "\<lparr>SneakerCreate.brand = str_of ''Nike'',
        SneakerCreate.model = str_of ''Air'', SneakerCreate.price = 100\<rparr>"]
    by simp
  have d: "snd (delete [nike] 1)
        = (if storable_int 1 then filter (\<lambda>r. id' r \<noteq> 1) [nike] else [nike])"
    and u: "map id' (snd (update stock [nike] 1 \<lparr>SneakerUpdate.brand = None,
        SneakerUpdate.model = None, SneakerUpdate.price = Some (Some 120)\<rparr>)) = map id' [nike]"
    and di: "distinct (map id' [nike])"
    using id_unique_and_immutable [OF h, where sneaker_id = 1
        and sneaker_data = "\<lparr>SneakerUpdate.brand = None, SneakerUpdate.model = None,
          SneakerUpdate.price = Some (Some 120)\<rparr>"]
    by blast+
  have "snd (delete [nike] 1) = []"
    using d by (simp add: storable_int_def nike_def)
  with h u di show ?thesis by blast
qed

subsection \<open>Search\<close>

lemma is_prefix_iff: "is_prefix s t \<longleftrightarrow> (\<exists>v. t = s @ v)"
  by (induction s t rule: is_prefix.induct) auto

text \<open>\<open>substring s t\<close> holds exactly when \<open>s\<close> occurs somewhere inside \<open>t\<close>.\<close>

lemma substring_iff: "substring s t \<longleftrightarrow> (\<exists>u v. t = u @ s @ v)"
proof (induction t)
  case Nil
  show ?case by (cases s) auto
next
  case (Cons c t)
  show ?case
  proof
    assume "substring s (c # t)"
    then consider "is_prefix s (c # t)" | "substring s t" by auto
    then show "\<exists>u v. c # t = u @ s @ v"
    proof cases
      case 1
      then obtain v where "c # t = s @ v" by (auto simp: is_prefix_iff)
      then have "c # t = [] @ s @ v" by simp
      then show ?thesis by blast
    next
      case 2
      then obtain u v where "t = u @ s @ v" using Cons.IH by auto
      then have "c # t = (c # u) @ s @ v" by simp
      then show ?thesis by blast
    qed
  next
    assume "\<exists>u v. c # t = u @ s @ v"
    then obtain u v where uv: "c # t = u @ s @ v" by auto
    show "substring s (c # t)"
    proof (cases u)
      case Nil
      then have "is_prefix s (c # t)" using uv by (auto simp: is_prefix_iff)
      then show ?thesis by simp
    next
      case (Cons a u')
      then have "t = u' @ s @ v" using uv by simp
      then have "substring s t" using Cons.IH by auto
      then show ?thesis by simp
    qed
  qed
qed









text \<open>
  Containment up to case is not the whole of it either. The characters \<open>_\<close> and \<open>%\<close> in
  the search string are wildcards, and a NUL ends it: each of the three search strings
  \<open>N_ke\<close>, \<open>N%e\<close> and the single NUL selects the row, and none occurs in its brand or
  model, in whatever case. A NUL in a field ends the field: \<open>ke\<close> occurs in the brand
  \<open>Ni\<close>, NUL, \<open>ke\<close>, and the row is not selected.
\<close>

lemma search_wildcard_counterexamples:
  "apply_filters [nike] None None None (Some (str_of ''N_ke'')) = [nike]
   \<and> \<not> substring (lower (str_of ''N_ke'')) (lower (str_of ''Nike''))
   \<and> \<not> substring (lower (str_of ''N_ke'')) (lower (str_of ''Air''))"
  "apply_filters [nike] None None None (Some (str_of ''N%e'')) = [nike]
   \<and> \<not> substring (lower (str_of ''N%e'')) (lower (str_of ''Nike''))
   \<and> \<not> substring (lower (str_of ''N%e'')) (lower (str_of ''Air''))"
  "apply_filters [nike] None None None (Some [0]) = [nike]
   \<and> \<not> substring (lower [0]) (lower (str_of ''Nike''))
   \<and> \<not> substring (lower [0]) (lower (str_of ''Air''))"
  "apply_filters [\<lparr>Sneaker.id' = 1, Sneaker.brand = Some (str_of ''Ni'' @ [0] @ str_of ''ke''),
        Sneaker.model = None, Sneaker.price = None\<rparr>] None None None (Some (str_of ''ke''))
     = []
   \<and> substring (lower (str_of ''ke'')) (lower (str_of ''Ni'' @ [0] @ str_of ''ke''))"
  by code_simp+



end
